theory Spec2Isabelle
  imports Main "HOL-Library.Word"
begin

unbundle bit_operations_syntax

section \<open>Python values and exceptions\<close>

text \<open>
  A byte of a Python \<open>bytes\<close> object is an 8-bit word. Python integers are \<open>int\<close>;
  indexes and lengths that cannot be negative in the code are \<open>nat\<close>.
\<close>

type_synonym byte = "8 word"

text \<open>
  An exception is its class and its text \<open>str(e)\<close>. The text is kept symbolically:
  \<open>Msg s\<close> is the literal message \<open>s\<close>; \<open>Repr k\<close> is \<open>repr(k)\<close> of a string key
  (the text of a \<open>KeyError\<close> raised by a dictionary lookup, which starts with a quote
  character); \<open>Template s\<close> is an f-string message, kept as its source text with the
  \<open>{...}\<close> fields unexpanded. \<open>RetryError\<close> is tenacity's wrapper around the
  exception of the last attempt.
\<close>

datatype exc_class =
    KeyError | ValueError | TypeError | IndexError | AttributeError | UnboundLocalError
  | TimeoutError | ResetTimeoutError | RuntimeError | AssertionError | UnicodeEncodeError
  | OverflowError | OtherException

datatype exc_text = Msg string | Repr string | Template string

datatype pyerr = Exc exc_class exc_text | RetryError "pyerr option"

section \<open>simpleserial.py: the packet codec\<close>

subsection \<open>\<open>TargetSerial._calc_crc\<close>\<close>

text \<open>
  The running CRC is an integer kept below 256 by \<open>crc &= 0xFF\<close> after every shift; on
  an 8-bit word the mask is the wrap-around of \<open>push_bit\<close>.
\<close>

definition crc_shift :: "byte \<Rightarrow> byte" where
  "crc_shift crc = (if crc AND 0x80 \<noteq> 0 then push_bit 1 crc XOR 0x4D else push_bit 1 crc)"

fun crc_shifts :: "nat \<Rightarrow> byte \<Rightarrow> byte" where
  "crc_shifts 0 crc = crc"
| "crc_shifts (Suc n) crc = crc_shifts n (crc_shift crc)"

definition crc_byte :: "byte \<Rightarrow> byte \<Rightarrow> byte" where
  "crc_byte crc b = crc_shifts 8 (crc XOR b)"

definition calc_crc :: "byte list \<Rightarrow> byte" where
  "calc_crc buf = foldl crc_byte 0x00 buf"

subsection \<open>\<open>TargetSerial._cobs_stuff_data\<close>\<close>

text \<open>
  The loop state is \<open>(out, code, code_index)\<close>. \<open>code\<close> is a Python integer that is
  stored into the bytearray \<open>out\<close>; it stays within \<open>1..255\<close> (lemma
  \<open>stuff_loop_code_le\<close> below), so the store never raises.
\<close>

fun stuff_loop :: "byte \<Rightarrow> byte list \<Rightarrow> byte list \<times> nat \<times> nat \<Rightarrow> byte list \<times> nat \<times> nat" where
  "stuff_loop frame_byte [] st = st"
| "stuff_loop frame_byte (b # bs) (out, code, code_index) =
     (let (out1, code1, code_index1) =
            (if b = frame_byte \<or> code = 0xFF
             then ((out[code_index := of_nat code]) @ [0], 1, length out)
             else (out, code, code_index));
          (out2, code2) =
            (if b \<noteq> frame_byte then (out1 @ [b], code1 + 1) else (out1, code1))
      in stuff_loop frame_byte bs (out2, code2, code_index1))"

definition cobs_stuff_data :: "byte list \<Rightarrow> byte \<Rightarrow> byte list" where
  "cobs_stuff_data buf frame_byte =
     (if buf = [] then []
      else (case stuff_loop frame_byte buf ([0], 1, 0) of
              (out, code, code_index) \<Rightarrow> out[code_index := of_nat code]))"

subsection \<open>\<open>TargetSerial._cobs_unstuff_data\<close>\<close>

function unstuff_loop :: "byte \<Rightarrow> byte list \<Rightarrow> byte list \<Rightarrow> nat \<Rightarrow> pyerr + byte list" where
  "unstuff_loop frame_byte buf out index =
     (if index < length buf then
        (let code = buf ! index in
         if code = 0 then Inl (Exc ValueError (Msg ''Invalid COBS: code byte cannot be 0''))
         else
           (let index1 = index + 1;
                end_index = index1 + unat code - 1
            in if end_index > length buf
               then Inl (Exc ValueError (Msg ''Invalid COBS: block extends past end of buffer''))
               else
                 (let out1 = out @ take (end_index - index1) (drop index1 buf);
                      out2 = (if code < 0xFF \<and> end_index < length buf
                              then out1 @ [frame_byte] else out1)
                  in unstuff_loop frame_byte buf out2 end_index)))
      else Inr out)"
  by pat_completeness auto
termination
proof (relation "measure (\<lambda>(frame_byte, buf, out, index). length buf - index)", goal_cases)
  case 1
  show ?case by simp
next
  case (2 frame_byte buf out index code index1 end_index out1 out2)
  from 2 have "0 < unat (buf ! index)"
    by (simp add: unat_gt_0)
  with 2 show ?case
    by simp
qed

definition cobs_unstuff_data :: "byte list \<Rightarrow> byte \<Rightarrow> pyerr + byte list" where
  "cobs_unstuff_data buf frame_byte =
     (if buf = [] then Inr [] else unstuff_loop frame_byte buf [] 0)"

subsection \<open>\<open>TargetSerial.type_convert_cmd\<close> and \<open>TargetSerial.type_convert_data\<close>\<close>

text \<open>
  The arguments are dynamically typed. A command is an integer, a string, or a value of
  another type; data is \<open>None\<close>, bytes (or a bytearray), a string, an integer, a list or
  tuple of integers, or a value of another type, of which only the truth value matters.
\<close>

datatype pycmd = CInt int | CStr string | COther

datatype pydata =
    DNone | DBytes "byte list" | DStr string | DInt int | DList "int list" | DOther bool

fun truthy :: "pydata \<Rightarrow> bool" where
  "truthy DNone = False"
| "truthy (DBytes bs) = (bs \<noteq> [])"
| "truthy (DStr s) = (s \<noteq> [])"
| "truthy (DInt n) = (n \<noteq> 0)"
| "truthy (DList xs) = (xs \<noteq> [])"
| "truthy (DOther t) = t"

definition in_byte_range :: "int \<Rightarrow> bool" where
  "in_byte_range n = (0 \<le> n \<and> n \<le> 255)"

fun check_cmd_range :: "int \<Rightarrow> pyerr + int" where
  "check_cmd_range cmd =
     (if in_byte_range cmd then Inr cmd
      else Inl (Exc ValueError (Template ''Command `{cmd}` out of byte range (0-255)'')))"

fun type_convert_cmd :: "pycmd \<Rightarrow> pyerr + int" where
  "type_convert_cmd (CStr s) =
     (case s of
        [] \<Rightarrow> Inl (Exc ValueError (Msg ''Command string cannot be empty''))
      | c # _ \<Rightarrow> check_cmd_range (of_char c))"
| "type_convert_cmd (CInt cmd) = check_cmd_range cmd"
| "type_convert_cmd COther =
     Inl (Exc TypeError (Template ''Unsupported command type: {type(cmd)}''))"

fun type_convert_data :: "pydata \<Rightarrow> pyerr + byte list" where
  "type_convert_data (DList xs) =
     (if list_all in_byte_range xs then Inr (map of_int xs)
      else Inl (Exc ValueError (Msg ''byte must be in range(0, 256)'')))"
| "type_convert_data (DStr s) =
     (if list_all (\<lambda>c. (of_char c :: nat) < 128) s then Inr (map of_char s)
      else Inl (Exc UnicodeEncodeError (Msg ''ordinal not in range(128)'')))"
| "type_convert_data (DInt n) =
     (if in_byte_range n then Inr [of_int n]
      else Inl (Exc ValueError (Template ''Integer out of byte range: {data}'')))"
| "type_convert_data (DBytes bs) = Inr bs"
| "type_convert_data d =
     Inl (Exc TypeError (Template ''Unsupported data type: {type(data)}''))"

subsection \<open>The serial driver\<close>

text \<open>
  Modelled from the spec: the driver object \<open>self.ser\<close> (the package
  \<open>simpleserial_readers\<close>) is not among the sources. The spec gives it as a byte
  transport with \<open>read_bytes(n, timeout)\<close> and \<open>write(bytes, timeout)\<close>, and
  \<open>peek\<close> as reading without removing from the input buffer. The transport is the
  bytes written so far (\<open>tx\<close>) and the bytes it delivers before the deadlines of the
  calls under consideration (\<open>rx\<close>): a read on an empty \<open>rx\<close> times out.
\<close>

record serial =
  tx :: "byte list"
  rx :: "byte list"

definition ser_write :: "serial \<Rightarrow> byte list \<Rightarrow> serial" where
  "ser_write s bs = s\<lparr>tx := tx s @ bs\<rparr>"

definition ser_peek_bytes :: "serial \<Rightarrow> nat \<Rightarrow> int \<Rightarrow> byte list" where
  "ser_peek_bytes s num_bytes timeout = take num_bytes (rx s)"

subsection \<open>\<open>TargetSerial.write\<close>, \<open>send_packet\<close>, \<open>peek\<close>\<close>

text \<open>\<open>write_serial\<close> is \<open>TargetSerial.write\<close> (\<open>write\<close> is a keyword of Isar).\<close>

definition write_serial :: "serial \<Rightarrow> pydata \<Rightarrow> (pyerr + unit) \<times> serial" where
  "write_serial s data =
     (case type_convert_data data of
        Inl e \<Rightarrow> (Inl e, s)
      | Inr bs \<Rightarrow> (Inr (), ser_write s bs))"

text \<open>
  In \<open>send_packet\<close> the branch for a packet with data builds \<open>pkt\<close> and then calls
  \<open>self.write(buf, timeout)\<close>; \<open>buf\<close> is assigned only in the other branch, so
  reading it raises \<open>UnboundLocalError\<close> and nothing is written. \<open>packet_with_data\<close>
  is the value of the local \<open>pkt\<close>.
\<close>

definition packet_with_data :: "int \<Rightarrow> byte list \<Rightarrow> byte list" where
  "packet_with_data cmd data =
     (let crc = calc_crc data;
          block = data @ [crc];
          encoded = cobs_stuff_data block 0x00
      in [of_int cmd] @ encoded @ [0x00])"

definition buf_unbound :: pyerr where
  "buf_unbound = Exc UnboundLocalError
     (Msg ''cannot access local variable 'buf' where it is not associated with a value'')"

definition send_packet :: "serial \<Rightarrow> pycmd \<Rightarrow> pydata \<Rightarrow> int \<Rightarrow> (pyerr + unit) \<times> serial" where
  "send_packet s cmd data timeout =
     (case type_convert_cmd cmd of
        Inl e \<Rightarrow> (Inl e, s)
      | Inr c \<Rightarrow>
          (case (if truthy data then map_sum id DBytes (type_convert_data data) else Inr data) of
             Inl e \<Rightarrow> (Inl e, s)
           | Inr data1 \<Rightarrow>
               if \<not> truthy data1 then write_serial s (DBytes [of_int c, 0])
               else (case data1 of
                       DBytes bs \<Rightarrow> (let pkt = packet_with_data c bs in (Inl buf_unbound, s))
                     | _ \<Rightarrow> (Inl buf_unbound, s))))"

definition peek :: "serial \<Rightarrow> nat \<Rightarrow> int \<Rightarrow> byte list option" where
  "peek s num_bytes timeout = (let received = ser_peek_bytes s num_bytes timeout in None)"

subsection \<open>\<open>TargetSerial.read_until\<close> and \<open>read_packet\<close>\<close>

text \<open>
  \<open>read_until\<close> reads one byte at a time; the deque of the last \<open>len(sequence)\<close>
  bytes is the suffix of \<open>result\<close> of that length, and is full once \<open>result\<close> is that
  long. The loop ends at the deadline, which is when \<open>rx\<close> has no byte left.
\<close>

fun read_until_loop :: "byte list \<Rightarrow> byte list \<Rightarrow> byte list \<Rightarrow> byte list \<times> byte list" where
  "read_until_loop sequence result [] = (result, [])"
| "read_until_loop sequence result (b # pending) =
     (let result1 = result @ [b] in
      if length sequence \<le> length result1
         \<and> drop (length result1 - length sequence) result1 = sequence
      then (result1, pending)
      else read_until_loop sequence result1 pending)"

definition read_until :: "serial \<Rightarrow> byte list \<Rightarrow> int \<Rightarrow> byte list \<times> serial" where
  "read_until s sequence timeout =
     (case read_until_loop sequence [] (rx s) of
        (result, pending) \<Rightarrow> (result, s\<lparr>rx := pending\<rparr>))"

definition frame_byte_seq :: "byte list" where
  "frame_byte_seq = [0]"

definition endswith :: "byte list \<Rightarrow> byte list \<Rightarrow> bool" where
  "endswith buf suffix =
     (length suffix \<le> length buf \<and> drop (length buf - length suffix) buf = suffix)"

definition read_packet :: "serial \<Rightarrow> int \<Rightarrow> (pyerr + byte \<times> byte list option) \<times> serial" where
  "read_packet s timeout =
     (case read_until s frame_byte_seq timeout of
        (buf0, s1) \<Rightarrow>
          if \<not> endswith buf0 frame_byte_seq
          then (Inl (Exc TimeoutError (Msg ''receive_packet: Timeout waiting for packet terminator'')), s1)
          else
            (let buf = butlast buf0 in
             if length buf = 1 then (Inr (buf ! 0, None), s1)
             else
               (case buf of
                  [] \<Rightarrow> (Inl (Exc IndexError (Msg ''index out of range'')), s1)
                | cmd # encoded \<Rightarrow>
                    (case cobs_unstuff_data encoded 0x00 of
                       Inl e \<Rightarrow> (Inl e, s1)
                     | Inr decoded \<Rightarrow>
                         if length decoded < 1
                         then (Inl (Exc ValueError (Msg ''read_packet: decode failed'')), s1)
                         else
                           (let data = butlast decoded; crc = last decoded in
                            if calc_crc data \<noteq> crc
                            then (Inl (Exc ValueError (Msg ''read_packet: CRC mismatch'')), s1)
                            else (Inr (cmd, Some data), s1))))))"

section \<open>config_classes.py\<close>

text \<open>
  A handler returns a category string, a pair of a category and extra data, or something
  else. Extra data is a dict, a string, an integer, a list, \<open>None\<close> (the \<open>option\<close>), or a
  value of another type, of which only the truth value matters. A handler is called with
  the profiler, the packet and the packet's data, and may call
  \<open>profilerSelf.reset_target()\<close>: it is a function of the outcome of that call and of
  the data.
\<close>

datatype extradata =
    XDict "(string \<times> byte list) list" | XStr string | XInt int | XList "int list" | XOther bool

datatype handler_result = HStr string | HPair string "extradata option" | HOther

type_synonym handler = "pyerr + unit \<Rightarrow> byte list option \<Rightarrow> pyerr + handler_result"

record packet =
  command :: int
  description :: string
  handler :: handler

text \<open>\<open>SimpleSerialPacket.handler\<close>, the method a packet has when no handler is given.\<close>

definition no_handler :: handler where
  "no_handler reset_outcome data =
     Inl (Exc RuntimeError (Template ''SimpleSerialPacket {self.command}: no handler defined''))"

definition SimpleSerialPacket :: "pycmd \<Rightarrow> string \<Rightarrow> handler option \<Rightarrow> pyerr + packet" where
  "SimpleSerialPacket cmd descr externalHandler =
     (case type_convert_cmd cmd of
        Inl e \<Rightarrow> Inl e
      | Inr c \<Rightarrow> Inr \<lparr>command = c, description = descr,
                     handler = (case externalHandler of None \<Rightarrow> no_handler | Some h \<Rightarrow> h)\<rparr>)"

text \<open>
  \<open>GlitchConfig\<close>; the two oscilloscope readings, floats that no code reads, are left
  out.
\<close>

record glitch_config =
  probe :: string
  voltage :: int
  pulse_width :: int
  pulse_spacing :: int
  pulse_repeats :: int
  pulse_offset :: int
  num_executions :: int
  dead_timeout :: int
  ack_timeout :: int

section \<open>profile_target.py: \<open>CSProfiler\<close>\<close>

subsection \<open>The object and the hardware around it\<close>

text \<open>
  A per-config result dictionary maps a key to a list or, after the assignment to
  \<open>num_skipped\<close> in \<open>test_position\<close>, to an integer. A list holds counters (integers) or
  payload groups (the dicts \<open>{"position_index": p, "data": [...]}\<close>).
\<close>

datatype item = IInt int | IGroup nat "extradata list"

datatype rvalue = RList "item list" | RInt int

type_synonym config_results = "string \<rightharpoonup> rvalue"

text \<open>
  Every call that leaves the object (ChipWhisperer, ChipSHOUTER, pulse generator, serial
  port, and \<open>test_execution\<close>, which drives them) is appended to \<open>actions\<close>. What the
  call does is the environment's choice: \<open>exec_out k\<close>, \<open>reset_out k\<close> and \<open>hw_out k\<close>
  give the outcome when the call is the \<open>k\<close>-th action.
\<close>

datatype action =
    CwResetTarget | ConfigureChipshouter nat | SerialFlush | TestExecution nat nat int
  | CsPowerCycleUsb | CsDisarm | PowerCycleTarget | NewTargetSerial | CwFlash

datatype exec_result =
    ExecRaises pyerr | ExecReturns3 int string "extradata option" | ExecReturns2 int string

datatype reset_try = TryRaises pyerr | SeqSeen | SeqNotSeen

record env =
  exec_out :: "nat \<Rightarrow> exec_result"
  reset_out :: "nat \<Rightarrow> reset_try"
  hw_out :: "nat \<Rightarrow> pyerr option"

record csprofiler =
  num_positions :: nat
  glitch_configs :: "glitch_config list"
  simpleserial_config :: "packet list"
  result_types :: "(string \<times> string) list"
  valid_commands :: "int list"
  results :: "config_results list"
  catched_errors :: "(nat \<times> pyerr) list"
  actions :: "action list"

type_synonym 'a run = "(pyerr + 'a) \<times> csprofiler"

definition hw_call :: "env \<Rightarrow> action \<Rightarrow> csprofiler \<Rightarrow> unit run" where
  "hw_call ev a self =
     (let self1 = self\<lparr>actions := actions self @ [a]\<rparr> in
      case hw_out ev (length (actions self)) of
        None \<Rightarrow> (Inr (), self1)
      | Some e \<Rightarrow> (Inl e, self1))"

definition and_then :: "unit run \<Rightarrow> (csprofiler \<Rightarrow> 'a run) \<Rightarrow> 'a run" where
  "and_then r f = (case r of (Inl e, self1) \<Rightarrow> (Inl e, self1) | (Inr u, self1) \<Rightarrow> f self1)"

subsection \<open>\<open>__init__\<close>\<close>

definition resetPacketHandler :: handler where
  "resetPacketHandler reset_outcome data = Inr (HStr ''resets'')"

definition nofaultPacketHandler :: handler where
  "nofaultPacketHandler reset_outcome data = Inr (HStr ''nofaults'')"

definition faultPacketHandler :: handler where
  "faultPacketHandler reset_outcome data =
     (case reset_outcome of Inl e \<Rightarrow> Inl e | Inr u \<Rightarrow> Inr (HStr ''faults''))"

definition default_simpleserial_config :: "packet list" where
  "default_simpleserial_config =
     [\<lparr>command = 115, description = ''Start signal for target (acknowleged by target)'',
        handler = no_handler\<rparr>,
      \<lparr>command = 101, description = ''End signal from target (nofault)'',
        handler = nofaultPacketHandler\<rparr>,
      \<lparr>command = 114, description = ''Reset signal from target (reset)'',
        handler = resetPacketHandler\<rparr>,
      \<lparr>command = 102, description = ''Fault occured on target'',
        handler = faultPacketHandler\<rparr>]"

definition default_result_types :: "(string \<times> string) list" where
  "default_result_types =
     [(''nofaults'', ''No Fault''), (''faults'', ''FAULT''),
      (''crashes'', ''Target unresponsive''), (''resets'', ''Target reset''),
      (''soft_bricked'', ''Soft reset failed''), (''hard_bricked'', ''Hard reset failed''),
      (''skipped'', ''Skipped'')]"

definition init_config_results :: "(string \<times> string) list \<Rightarrow> nat \<Rightarrow> config_results" where
  "init_config_results rts n =
     map_of (map (\<lambda>(key, label). (''num_'' @ key, RList (replicate n (IInt 0)))) rts)"

text \<open>
  \<open>CSProfiler(target_config, positions, glitch_configs, simpleserial_config)\<close>, with
  \<open>results\<close> as \<open>run_campaign\<close> sets it (a copy of \<open>_results\<close>) and an empty error log.
\<close>

definition new_profiler :: "nat \<Rightarrow> glitch_config list \<Rightarrow> packet list \<Rightarrow> csprofiler" where
  "new_profiler n_positions cfgs ss_config =
     (let config = (if ss_config \<noteq> [] then ss_config else default_simpleserial_config) in
      \<lparr>num_positions = n_positions,
       glitch_configs = cfgs,
       simpleserial_config = config,
       result_types = default_result_types,
       valid_commands = map command config,
       results = map (\<lambda>c. init_config_results default_result_types n_positions) cfgs,
       catched_errors = [],
       actions = []\<rparr>)"

subsection \<open>\<open>addSimpleSerialCommand\<close>\<close>

datatype pyobj = Packet packet | NotAPacket

definition addSimpleSerialCommand :: "csprofiler \<Rightarrow> pyobj \<Rightarrow> bool \<Rightarrow> pyerr + csprofiler" where
  "addSimpleSerialCommand self obj overwrite =
     (case obj of
        NotAPacket \<Rightarrow>
          Inl (Exc ValueError (Msg ''addCommand: Can only add objects of type: SimpleSerialPacket''))
      | Packet p \<Rightarrow>
          if command p = 0
          then Inl (Exc KeyError (Repr
            ''SimpleSerial command cannot be 0 since zero is the termination character.''))
          else if command p \<in> set (valid_commands self)
          then
            (if \<not> overwrite
             then Inl (Exc KeyError (Template
               ''addCommand: Command '{packet.command}' already exists in valid_commands.''))
             else Inr (self\<lparr>
               simpleserial_config :=
                 filter (\<lambda>q. command q \<noteq> command p) (simpleserial_config self) @ [p],
               valid_commands := remove1 (command p) (valid_commands self) @ [command p]\<rparr>))
          else Inr (self\<lparr>
            simpleserial_config := simpleserial_config self @ [p],
            valid_commands := valid_commands self @ [command p]\<rparr>))"

text \<open>
  The registry is two lists, the packets and their commands; \<open>__init__\<close> builds the
  second from the first, and they hold the same commands.
\<close>

definition registry_in_sync :: "csprofiler \<Rightarrow> bool" where
  "registry_in_sync self =
     (set (valid_commands self) = set (map command (simpleserial_config self)))"

subsection \<open>\<open>handlePacket\<close>\<close>

text \<open>
  The \<open>for\<close> loop assigns \<open>matched_packet\<close> at the first packet whose command is \<open>cmd\<close>
  and breaks; there is no assignment before the loop. \<open>find_packet\<close> is the loop:
  \<open>None\<close> is the name left unbound, and the test \<open>matched_packet is None\<close> after the
  loop then raises \<open>UnboundLocalError\<close>. A bound \<open>matched_packet\<close> is a packet, so the
  \<open>ValueError\<close> under that test is never raised. A packet's command is an integer
  (\<open>SimpleSerialPacket\<close> converts it) and its handler is callable.
\<close>

fun find_packet :: "packet list \<Rightarrow> int \<Rightarrow> packet option" where
  "find_packet [] cmd = None"
| "find_packet (p # ps) cmd = (if command p = cmd then Some p else find_packet ps cmd)"

definition matched_packet_unbound :: pyerr where
  "matched_packet_unbound = Exc UnboundLocalError
     (Msg ''cannot access local variable 'matched_packet' where it is not associated with a value'')"

definition no_matching_packet :: pyerr where
  "no_matching_packet =
     Exc ValueError (Template ''No matching packet definition found for command: `{cmd}`'')"

fun valid_extradata :: "extradata option \<Rightarrow> bool" where
  "valid_extradata (Some (XOther t)) = False"
| "valid_extradata x = True"

definition check_handler_result ::
  "csprofiler \<Rightarrow> string \<Rightarrow> extradata option \<Rightarrow> pyerr + string \<times> extradata option" where
  "check_handler_result self result_category extradata =
     (if result_category \<notin> set (map fst (result_types self))
      then Inl (Exc ValueError (Template
        ''PacketHandler of command: `{matched_packet.command}` returned invalid result_category: `{result_category}`''))
      else if \<not> valid_extradata extradata
      then Inl (Exc ValueError (Template
        ''PacketHandler of command: `{matched_packet.command}` returned invalid extradata type (has to be dict, str, int, list)''))
      else Inr (result_category, extradata))"

definition handlePacket ::
  "csprofiler \<Rightarrow> pyerr + unit \<Rightarrow> int \<Rightarrow> byte list option \<Rightarrow> pyerr + string \<times> extradata option" where
  "handlePacket self reset_outcome cmd data =
     (case find_packet (simpleserial_config self) cmd of
        None \<Rightarrow> Inl matched_packet_unbound
      | Some matched_packet \<Rightarrow>
          (case handler matched_packet reset_outcome data of
             Inl e \<Rightarrow> Inl e
           | Inr (HPair result_category extradata) \<Rightarrow>
               check_handler_result self result_category extradata
           | Inr (HStr result_category) \<Rightarrow> check_handler_result self result_category None
           | Inr HOther \<Rightarrow>
               Inl (Exc ValueError (Template
                 ''Handler of SimpleSerialPacket {matched_packet.command} must return either a string or a (string, extradata) tuple!''))))"

subsection \<open>Floats\<close>

text \<open>
  The check at the top of the \<open>for\<close> body divides an integer by the float \<open>1e6\<close>
  and compares the quotient with an integer. A finite float (IEEE binary64) is kept as
  a pair \<open>(m, e)\<close> for the number \<open>m * 2^e\<close>. The significand has 53 bits and
  rounding is to nearest, ties to even.
\<close>

type_synonym pyfloat = "int \<times> int"

fun bit_length :: "nat \<Rightarrow> nat" where
  "bit_length n = (if n = 0 then 0 else Suc (bit_length (n div 2)))"

declare bit_length.simps [simp del]

text \<open>The integer nearest to \<open>num / den\<close>, the even one of two that are equally near.\<close>

definition round_half_even :: "nat \<Rightarrow> nat \<Rightarrow> nat" where
  "round_half_even num den =
     (let q = num div den; r = num mod den in
      if 2 * r < den then q
      else if den < 2 * r then q + 1
      else if even q then q else q + 1)"

text \<open>
  The conversion of an integer to a float: exact up to 53 bits, rounded to 53 bits
  above, and \<open>OverflowError\<close> when the rounded value is \<open>2^1024\<close> or more.
\<close>

definition float_of_int :: "int \<Rightarrow> pyerr + pyfloat" where
  "float_of_int n =
     (let a = nat \<bar>n\<bar>; bits = bit_length a in
      if bits \<le> 53 then Inr (n, 0)
      else
        (let shift = bits - 53; m = round_half_even a (2 ^ shift) in
         if 2 ^ 1024 \<le> m * 2 ^ shift
         then Inl (Exc OverflowError (Msg ''int too large to convert to float''))
         else Inr (sgn n * int m, int shift)))"

text \<open>
  The quotient of two positive integers as a float. \<open>floor_log2_frac num den\<close> is the
  \<open>e\<close> with \<open>2^e \<le> num / den < 2^(e+1)\<close>, which is the difference of the bit lengths
  or one less; the quotient is rounded to a multiple of \<open>2^(e-52)\<close>. (No quotient below
  the normal range, \<open>2^-1022\<close>, arises: the dividend is an integer and the divisor
  \<open>10^6\<close>.)
\<close>

definition floor_log2_frac :: "nat \<Rightarrow> nat \<Rightarrow> int" where
  "floor_log2_frac num den =
     (let a = bit_length num; b = bit_length den in
      if den * 2 ^ a \<le> num * 2 ^ b then int a - int b else int a - int b - 1)"

definition round_binary64 :: "nat \<Rightarrow> nat \<Rightarrow> pyfloat" where
  "round_binary64 num den =
     (let s = floor_log2_frac num den - 52 in
      if 0 \<le> s then (int (round_half_even num (den * 2 ^ nat s)), s)
      else (int (round_half_even (num * 2 ^ nat (- s)) den), s))"

text \<open>\<open>x / 1e6\<close> for a float \<open>x\<close>; \<open>1e6\<close> is the float \<open>10^6\<close> exactly.\<close>

definition truediv_1e6 :: "pyfloat \<Rightarrow> pyfloat" where
  "truediv_1e6 x =
     (case x of (m, e) \<Rightarrow>
        if m = 0 then (0, 0)
        else
          (case (if 0 \<le> e then round_binary64 (nat \<bar>m\<bar> * 2 ^ nat e) 1000000
                 else round_binary64 (nat \<bar>m\<bar>) (1000000 * 2 ^ nat (- e))) of
             (m1, e1) \<Rightarrow> (sgn m * m1, e1)))"

text \<open>\<open>x < d\<close> for a float \<open>x\<close> and an integer \<open>d\<close>, which Python compares exactly.\<close>

definition float_less_int :: "pyfloat \<Rightarrow> int \<Rightarrow> bool" where
  "float_less_int x d =
     (case x of (m, e) \<Rightarrow> if 0 \<le> e then m * 2 ^ nat e < d else m < d * 2 ^ nat (- e))"

subsection \<open>\<open>reset_target\<close>\<close>

text \<open>
  One try is \<open>self.cw.reset_target()\<close> followed by \<open>read_until\<close> of the reset sequence;
  the environment says whether the call raises, the sequence is seen, or it is not.
  Every caller uses the default \<open>retries=3\<close>.
\<close>

fun reset_tries :: "env \<Rightarrow> nat \<Rightarrow> csprofiler \<Rightarrow> unit run" where
  "reset_tries ev 0 self =
     (Inl (Exc ResetTimeoutError (Msg ''Failed to reset target after 3 tries!'')), self)"
| "reset_tries ev (Suc n) self =
     (let self1 = self\<lparr>actions := actions self @ [CwResetTarget]\<rparr> in
      case reset_out ev (length (actions self)) of
        TryRaises e \<Rightarrow> (Inl e, self1)
      | SeqSeen \<Rightarrow> (Inr (), self1)
      | SeqNotSeen \<Rightarrow> reset_tries ev n self1)"

definition reset_target :: "env \<Rightarrow> csprofiler \<Rightarrow> unit run" where
  "reset_target ev self = reset_tries ev 3 self"

subsection \<open>\<open>test_position\<close>: the body of the \<open>try\<close>\<close>

fun xtruthy :: "extradata option \<Rightarrow> bool" where
  "xtruthy None = False"
| "xtruthy (Some (XDict d)) = (d \<noteq> [])"
| "xtruthy (Some (XStr s)) = (s \<noteq> [])"
| "xtruthy (Some (XInt n)) = (n \<noteq> 0)"
| "xtruthy (Some (XList xs)) = (xs \<noteq> [])"
| "xtruthy (Some (XOther t)) = t"

text \<open>\<open>config_results[key][position_index] += 1\<close>\<close>

definition incr_counter :: "config_results \<Rightarrow> string \<Rightarrow> nat \<Rightarrow> pyerr + config_results" where
  "incr_counter cr key position_index =
     (case cr key of
        None \<Rightarrow> Inl (Exc KeyError (Repr key))
      | Some (RInt n) \<Rightarrow> Inl (Exc TypeError (Msg '''int' object is not subscriptable''))
      | Some (RList xs) \<Rightarrow>
          if position_index < length xs then
            (case xs ! position_index of
               IInt n \<Rightarrow> Inr (cr(key \<mapsto> RList (xs[position_index := IInt (n + 1)])))
             | IGroup p d \<Rightarrow>
                 Inl (Exc TypeError
                   (Msg (''unsupported operand type(s) for +=: 'dict' and 'int'' @ [CHR 0x27]))))
          else Inl (Exc IndexError (Msg ''list index out of range'')))"

text \<open>
  The block under \<open>if extradata:\<close>. The inner \<open>try\<close> reads the last element of the
  category's list; whatever it raises (an empty list, an integer element, another
  position) is caught by the bare \<open>except\<close>, which appends a new group. On an integer
  value the read raises, and so does the \<open>append\<close> in the handler.
\<close>

definition add_extradata ::
  "config_results \<Rightarrow> string \<Rightarrow> nat \<Rightarrow> extradata \<Rightarrow> pyerr option \<times> config_results" where
  "add_extradata cr result_category position_index x =
     (case cr result_category of
        None \<Rightarrow> (None, cr(result_category \<mapsto> RList [IGroup position_index [x]]))
      | Some (RInt n) \<Rightarrow>
          (Some (Exc AttributeError
             (Msg ('''int' object has no attribute 'append'' @ [CHR 0x27]))), cr)
      | Some (RList xs) \<Rightarrow>
          (case (if xs = [] then None else Some (last xs)) of
             Some (IGroup p d) \<Rightarrow>
               if p = position_index
               then (None, cr(result_category \<mapsto> RList (butlast xs @ [IGroup p (d @ [x])])))
               else (None, cr(result_category \<mapsto> RList (xs @ [IGroup position_index [x]])))
           | _ \<Rightarrow> (None, cr(result_category \<mapsto> RList (xs @ [IGroup position_index [x]])))))"

text \<open>
  The \<open>try\<close> body of one pass of the \<open>while\<close> loop. It returns the exception, if one
  is raised, and the value of \<open>execution_index\<close>, which is assigned as soon as
  \<open>test_execution\<close> has returned three values. A known category has its label printed;
  an unknown one raises at the lookup in \<open>result_types\<close>.
\<close>

definition try_body ::
  "env \<Rightarrow> nat \<Rightarrow> nat \<Rightarrow> int \<Rightarrow> csprofiler \<Rightarrow> (pyerr option \<times> int) \<times> csprofiler" where
  "try_body ev position_index config_index execution_index self =
     (let self1 = self\<lparr>actions := actions self
                    @ [TestExecution position_index config_index execution_index]\<rparr> in
      case exec_out ev (length (actions self)) of
        ExecRaises e \<Rightarrow> ((Some e, execution_index), self1)
      | ExecReturns2 i c \<Rightarrow>
          ((Some (Exc ValueError (Msg ''not enough values to unpack (expected 3, got 2)'')),
            execution_index), self1)
      | ExecReturns3 next_index result_category extradata \<Rightarrow>
          if result_category \<notin> set (map fst (result_types self1))
          then ((Some (Exc KeyError (Repr result_category)), next_index), self1)
          else
            (case incr_counter (results self1 ! config_index)
                    (''num_'' @ result_category) position_index of
               Inl e \<Rightarrow> ((Some e, next_index), self1)
             | Inr cr1 \<Rightarrow>
                 (case (if xtruthy extradata then extradata else None) of
                    None \<Rightarrow>
                      ((None, next_index),
                       self1\<lparr>results := (results self1)[config_index := cr1]\<rparr>)
                  | Some x \<Rightarrow>
                      (case add_extradata cr1 result_category position_index x of
                         (err, cr2) \<Rightarrow>
                           ((err, next_index),
                            self1\<lparr>results := (results self1)[config_index := cr2]\<rparr>)))))"

subsection \<open>\<open>test_position\<close>: the \<open>except\<close> handler\<close>

text \<open>
  \<open>str_in e texts\<close> is \<open>str(e) in {...}\<close> for a set of literal texts, none of which
  starts with a quote character or with \<open>RetryError\<close>.
\<close>

fun str_in :: "pyerr \<Rightarrow> string list \<Rightarrow> bool" where
  "str_in (Exc c (Msg m)) texts = (m \<in> set texts)"
| "str_in e texts = False"

fun unwrap_retry :: "pyerr \<Rightarrow> pyerr" where
  "unwrap_retry (RetryError (Some last_exc)) = last_exc"
| "unwrap_retry e = e"

text \<open>\<open>config_results[key] += 1\<close>\<close>

definition dict_incr :: "config_results \<Rightarrow> string \<Rightarrow> pyerr + config_results" where
  "dict_incr cr key =
     (case cr key of
        None \<Rightarrow> Inl (Exc KeyError (Repr key))
      | Some (RInt n) \<Rightarrow> Inr (cr(key \<mapsto> RInt (n + 1)))
      | Some (RList xs) \<Rightarrow> Inl (Exc TypeError (Msg '''int' object is not iterable'')))"

datatype loop_ctl = Continue int nat | Break | Raise pyerr

definition ctl_of :: "int \<Rightarrow> nat \<Rightarrow> unit run \<Rightarrow> loop_ctl \<times> csprofiler" where
  "ctl_of execution_index retry_count r =
     (case r of
        (Inl e, self1) \<Rightarrow> (Raise e, self1)
      | (Inr u, self1) \<Rightarrow> (Continue execution_index retry_count, self1))"

text \<open>The first remedy: power-cycle the ChipSHOUTER, flush, reset, configure again.\<close>

definition shouter_recovery :: "env \<Rightarrow> nat \<Rightarrow> csprofiler \<Rightarrow> unit run" where
  "shouter_recovery ev config_index self =
     and_then (hw_call ev CsPowerCycleUsb self) (\<lambda>self1.
     and_then (hw_call ev SerialFlush self1) (\<lambda>self2.
     and_then (reset_target ev self2) (\<lambda>self3.
     hw_call ev (ConfigureChipshouter config_index) self3)))"

text \<open>
  The second remedy. The inner \<open>try\<close> resets the target and adds one to
  \<open>config_results["soft_bricked"]\<close>; any exception there is caught and the target is
  reflashed and reset, and one is added to \<open>config_results["hard_bricked"]\<close>. The result
  is the new \<open>execution_index\<close>.
\<close>

definition store_config :: "nat \<Rightarrow> config_results \<Rightarrow> csprofiler \<Rightarrow> csprofiler" where
  "store_config config_index cr self = self\<lparr>results := (results self)[config_index := cr]\<rparr>"

definition reflash_recovery :: "env \<Rightarrow> nat \<Rightarrow> int \<Rightarrow> csprofiler \<Rightarrow> int run" where
  "reflash_recovery ev config_index execution_index self =
     and_then (hw_call ev CwFlash self) (\<lambda>self1.
     and_then (reset_target ev self1) (\<lambda>self2.
       case dict_incr (results self2 ! config_index) ''hard_bricked'' of
         Inl e \<Rightarrow> (Inl e, self2)
       | Inr cr \<Rightarrow> (Inr (execution_index + 1), store_config config_index cr self2)))"

definition target_recovery :: "env \<Rightarrow> nat \<Rightarrow> int \<Rightarrow> csprofiler \<Rightarrow> int run" where
  "target_recovery ev config_index execution_index self =
     and_then (hw_call ev CsDisarm self) (\<lambda>self1.
     and_then (hw_call ev PowerCycleTarget self1) (\<lambda>self2.
     and_then (hw_call ev NewTargetSerial self2) (\<lambda>self3.
       case reset_target ev self3 of
         (Inl e, self4) \<Rightarrow> reflash_recovery ev config_index execution_index self4
       | (Inr u, self4) \<Rightarrow>
           (case dict_incr (results self4 ! config_index) ''soft_bricked'' of
              Inl e \<Rightarrow> reflash_recovery ev config_index execution_index self4
            | Inr cr \<Rightarrow> (Inr (execution_index + 1), store_config config_index cr self4)))))"

definition handle_exception ::
  "env \<Rightarrow> nat \<Rightarrow> nat \<Rightarrow> glitch_config \<Rightarrow> pyerr \<Rightarrow> int \<Rightarrow> nat \<Rightarrow> csprofiler
     \<Rightarrow> loop_ctl \<times> csprofiler" where
  "handle_exception ev position_index config_index cfg raised execution_index retry_count self =
     (let e = unwrap_retry raised;
          self1 = self\<lparr>catched_errors := catched_errors self @ [(position_index, e)]\<rparr>
      in
      if retry_count < 3 then
        (let retry_count1 = retry_count + 1 in
         if str_in e [''No response from shouter.'', ''Failed to clear ChipSHOUTER faults!'']
         then ctl_of execution_index retry_count1 (shouter_recovery ev config_index self1)
         else if str_in e [''ChipWhisperer: reset_target timed out'']
         then
           (case target_recovery ev config_index execution_index self1 of
              (Inl e1, self2) \<Rightarrow> (Raise e1, self2)
            | (Inr execution_index1, self2) \<Rightarrow> (Continue execution_index1 retry_count1, self2))
         else (Raise e, self1))
      else
        (let num_skipped = num_executions cfg - execution_index in
         (Break,
          store_config config_index
            ((results self1 ! config_index)(''num_skipped'' \<mapsto> RInt num_skipped)) self1)))"

subsection \<open>\<open>test_position\<close>: the loops\<close>

text \<open>One pass of the \<open>while\<close> loop: the \<open>try\<close> body and, if it raises, the handler.\<close>

definition execution_attempt ::
  "env \<Rightarrow> nat \<Rightarrow> nat \<Rightarrow> glitch_config \<Rightarrow> int \<Rightarrow> nat \<Rightarrow> csprofiler \<Rightarrow> loop_ctl \<times> csprofiler" where
  "execution_attempt ev position_index config_index cfg execution_index retry_count self =
     (case try_body ev position_index config_index execution_index self of
        ((None, execution_index1), self1) \<Rightarrow> (Continue execution_index1 retry_count, self1)
      | ((Some e, execution_index1), self1) \<Rightarrow>
          handle_exception ev position_index config_index cfg e execution_index1 retry_count self1)"

text \<open>
  The \<open>while\<close> loop need not end (a replacement \<open>test_execution\<close> chooses the next
  index), so it runs on fuel: \<open>None\<close> is a loop still running when the fuel is used up.
  Otherwise the result is the exception that left the loop, if any.
\<close>

fun run_executions ::
  "nat \<Rightarrow> env \<Rightarrow> nat \<Rightarrow> nat \<Rightarrow> glitch_config \<Rightarrow> int \<Rightarrow> nat \<Rightarrow> csprofiler
     \<Rightarrow> unit run option" where
  "run_executions 0 ev position_index config_index cfg execution_index retry_count self =
     (if \<not> execution_index < num_executions cfg then Some (Inr (), self) else None)"
| "run_executions (Suc fuel) ev position_index config_index cfg execution_index retry_count self =
     (if \<not> execution_index < num_executions cfg then Some (Inr (), self)
      else
        (case execution_attempt ev position_index config_index cfg
                execution_index retry_count self of
           (Continue execution_index1 retry_count1, self1) \<Rightarrow>
             run_executions fuel ev position_index config_index cfg
               execution_index1 retry_count1 self1
         | (Break, self1) \<Rightarrow> Some (Inr (), self1)
         | (Raise e, self1) \<Rightarrow> Some (Inl e, self1)))"

text \<open>
  The first statements of the \<open>for\<close> body: \<open>faulting_duration_ns / 1e6\<close> converts the
  integer to a float, which can raise, and divides.
\<close>

definition faulting_duation_ms :: "glitch_config \<Rightarrow> pyerr + pyfloat" where
  "faulting_duation_ms cfg =
     (let pulse_spacing_ns = pulse_spacing cfg;
          faulting_duration_ns = (pulse_width cfg + pulse_spacing_ns) * pulse_repeats cfg
      in map_sum id truediv_1e6 (float_of_int faulting_duration_ns))"

definition duration_assertion :: pyerr where
  "duration_assertion = Exc AssertionError (Template
     ''Faulting for {faulting_duation_ms} ms but dead_timeout is only {glitch_config.dead_timeout} ms.'')"

text \<open>The body of the \<open>for\<close> loop over the glitch configs.\<close>

definition test_config ::
  "nat \<Rightarrow> env \<Rightarrow> nat \<Rightarrow> nat \<Rightarrow> glitch_config \<Rightarrow> csprofiler \<Rightarrow> unit run option" where
  "test_config fuel ev position_index config_index cfg self =
     (case faulting_duation_ms cfg of
        Inl e \<Rightarrow> Some (Inl e, self)
      | Inr ms \<Rightarrow>
          if \<not> float_less_int ms (dead_timeout cfg)
          then Some (Inl duration_assertion, self)
          else
            (case hw_call ev (ConfigureChipshouter config_index) self of
               (Inl e, self1) \<Rightarrow> Some (Inl e, self1)
             | (Inr u, self1) \<Rightarrow>
                 if \<not> config_index < length (results self1)
                 then Some (Inl (Exc IndexError (Msg ''list index out of range'')), self1)
                 else
                   (case hw_call ev SerialFlush self1 of
                      (Inl e, self2) \<Rightarrow> Some (Inl e, self2)
                    | (Inr u, self2) \<Rightarrow>
                        run_executions fuel ev position_index config_index cfg 0 0 self2)))"

fun test_configs ::
  "nat \<Rightarrow> env \<Rightarrow> nat \<Rightarrow> nat \<Rightarrow> glitch_config list \<Rightarrow> csprofiler \<Rightarrow> unit run option" where
  "test_configs fuel ev position_index config_index [] self = Some (Inr (), self)"
| "test_configs fuel ev position_index config_index (cfg # cfgs) self =
     (case test_config fuel ev position_index config_index cfg self of
        None \<Rightarrow> None
      | Some (Inl e, self1) \<Rightarrow> Some (Inl e, self1)
      | Some (Inr u, self1) \<Rightarrow>
          test_configs fuel ev position_index (Suc config_index) cfgs self1)"

definition test_position :: "nat \<Rightarrow> env \<Rightarrow> nat \<Rightarrow> csprofiler \<Rightarrow> unit run option" where
  "test_position fuel ev position_index self =
     (case reset_target ev self of
        (Inl e, self1) \<Rightarrow> Some (Inl e, self1)
      | (Inr u, self1) \<Rightarrow> test_configs fuel ev position_index 0 (glitch_configs self1) self1)"

section \<open>Scenarios\<close>

text \<open>
  The glitch config of \<open>test_profile_target.py\<close> (pulse width 40), and environments
  for the runs examined below. In every environment the hardware calls succeed.
\<close>

definition bench_config :: glitch_config where
  "bench_config =
     \<lparr>probe = ''4mm CW'', voltage = 0, pulse_width = 40, pulse_spacing = 50,
      pulse_repeats = 0, pulse_offset = 3400, num_executions = 5, dead_timeout = 100,
      ack_timeout = 100\<rparr>"

text \<open>
  Two positions. At position 0 (actions 0 to 7) the five executions return
  \<open>skipped\<close> twice and \<open>nofaults\<close> three times. At position 1 every execution raises
  the ChipSHOUTER's \<open>No response from shouter.\<close>
\<close>

definition silent_shouter_env :: env where
  "silent_shouter_env =
     \<lparr>exec_out = (\<lambda>k. if k = 3 then ExecReturns3 1 ''skipped'' None
                      else if k = 4 then ExecReturns3 2 ''skipped'' None
                      else if k = 5 then ExecReturns3 3 ''nofaults'' None
                      else if k = 6 then ExecReturns3 4 ''nofaults'' None
                      else if k = 7 then ExecReturns3 5 ''nofaults'' None
                      else ExecRaises (Exc RuntimeError (Msg ''No response from shouter.''))),
      reset_out = (\<lambda>k. SeqSeen),
      hw_out = (\<lambda>k. None)\<rparr>"

definition silent_shouter_run :: "unit run option" where
  "silent_shouter_run =
     (case test_position 10 silent_shouter_env 0 (new_profiler 2 [bench_config] []) of
        Some (Inr u, self1) \<Rightarrow> test_position 10 silent_shouter_env 1 self1
      | r \<Rightarrow> r)"

text \<open>
  One position; the first execution raises \<open>ChipWhisperer: reset_target timed out\<close>.
  In \<open>soft_env\<close> every reset of the target succeeds. In \<open>hard_env\<close> the three tries
  after the power cycle (actions 7 to 9) fail and the reset after the reflash succeeds.
\<close>

definition reset_timed_out :: pyerr where
  "reset_timed_out = Exc TimeoutError (Msg ''ChipWhisperer: reset_target timed out'')"

definition soft_env :: env where
  "soft_env =
     \<lparr>exec_out = (\<lambda>k. ExecRaises reset_timed_out),
      reset_out = (\<lambda>k. SeqSeen),
      hw_out = (\<lambda>k. None)\<rparr>"

definition hard_env :: env where
  "hard_env =
     \<lparr>exec_out = (\<lambda>k. ExecRaises reset_timed_out),
      reset_out = (\<lambda>k. if 7 \<le> k \<and> k \<le> 9 then SeqNotSeen else SeqSeen),
      hw_out = (\<lambda>k. None)\<rparr>"

text \<open>What a run leaves: its outcome, some entries of the first config's results, the actions.\<close>

definition outcome_of :: "unit run option \<Rightarrow> (pyerr + unit) option" where
  "outcome_of r = map_option fst r"

definition result_entry :: "unit run option \<Rightarrow> string \<Rightarrow> rvalue option" where
  "result_entry r key = (case r of None \<Rightarrow> None | Some (out, self1) \<Rightarrow> (results self1 ! 0) key)"

definition actions_of :: "unit run option \<Rightarrow> action list" where
  "actions_of r = (case r of None \<Rightarrow> [] | Some (out, self1) \<Rightarrow> actions self1)"

text \<open>
  A config with one execution whose pulse train lasts exactly its dead timeout, if both
  are read in one unit, and an environment in which the execution returns \<open>nofaults\<close>.
\<close>

definition equal_duration_config :: glitch_config where
  "equal_duration_config =
     \<lparr>probe = ''4mm CW'', voltage = 0, pulse_width = 50, pulse_spacing = 50,
      pulse_repeats = 1, pulse_offset = 3400, num_executions = 1, dead_timeout = 100,
      ack_timeout = 100\<rparr>"

definition quiet_env :: env where
  "quiet_env =
     \<lparr>exec_out = (\<lambda>k. ExecReturns3 1 ''nofaults'' None),
      reset_out = (\<lambda>k. SeqSeen),
      hw_out = (\<lambda>k. None)\<rparr>"

text \<open>A config whose pulse train lasts 200 ms against a dead timeout of 100 ms.\<close>

definition long_train_config :: glitch_config where
  "long_train_config =
     \<lparr>probe = ''4mm CW'', voltage = 0, pulse_width = 50, pulse_spacing = 50,
      pulse_repeats = 2000000, pulse_offset = 3400, num_executions = 5, dead_timeout = 100,
      ack_timeout = 100\<rparr>"

text \<open>
  The packet that \<open>test_profile_target.py\<close> registers over the default fault packet.
  Its handler resets the target and parses 68 bytes into three fields.
\<close>

definition memcpy_fault_handler :: handler where
  "memcpy_fault_handler reset_outcome data =
     (case reset_outcome of
        Inl e \<Rightarrow> Inl e
      | Inr u \<Rightarrow>
          (case data of
             None \<Rightarrow> Inl (Exc TypeError (Msg ''object of type 'NoneType' has no len()''))
           | Some bs \<Rightarrow>
               if length bs < 68
               then Inl (Exc ValueError (Template
                 ''Data too short (expected {struct_size} bytes, got {len(data)})''))
               else Inr (HPair ''faults'' (Some (XDict
                 [(''target_buffer'', take 48 bs),
                  (''var1'', take 10 (drop 48 bs)),
                  (''var2'', take 10 (drop 58 bs))])))))"

definition memcpy_fault_packet :: packet where
  "memcpy_fault_packet =
     \<lparr>command = 102,
      description = ''Fault signal from target with buffer content (fault)'',
      handler = memcpy_fault_handler\<rparr>"

definition zero_packet :: packet where
  "zero_packet = \<lparr>command = 0, description = ''terminator'', handler = nofaultPacketHandler\<rparr>"

text \<open>
  Configs beyond the exact range of floats: a pulse train of \<open>10^22 + 10^6\<close> ns with a
  dead timeout of \<open>10^16 + 1\<close> ms, and a pulse width of \<open>10^400\<close> ns.
\<close>

definition rounding_config :: glitch_config where
  "rounding_config =
     \<lparr>probe = ''4mm CW'', voltage = 0, pulse_width = 10000000000000001, pulse_spacing = 0,
      pulse_repeats = 1000000, pulse_offset = 3400, num_executions = 1,
      dead_timeout = 10000000000000001, ack_timeout = 100\<rparr>"

definition overflow_config :: glitch_config where
  "overflow_config =
     \<lparr>probe = ''4mm CW'', voltage = 0, pulse_width = 10 ^ 400, pulse_spacing = 0,
      pulse_repeats = 1, pulse_offset = 3400, num_executions = 1, dead_timeout = 100,
      ack_timeout = 100\<rparr>"

section \<open>Evaluating the scenarios\<close>

lemmas float_defs = float_of_int_def truediv_1e6_def round_binary64_def floor_log2_frac_def
  round_half_even_def float_less_int_def bit_length.simps

text \<open>
  The quotients that the check computes for the scenarios' configs: \<open>0.0\<close>, the float
  nearest to \<open>0.0001\<close>, and \<open>200.0\<close>.
\<close>

lemma bench_config_facts:
  "num_executions bench_config = 5"
  "dead_timeout bench_config = 100"
  "faulting_duation_ms bench_config = Inr (0, 0)"
  by (simp_all add: bench_config_def faulting_duation_ms_def float_defs)

lemma equal_duration_config_facts:
  "num_executions equal_duration_config = 1"
  "dead_timeout equal_duration_config = 100"
  "faulting_duation_ms equal_duration_config = Inr (7378697629483821, - 66)"
  by (simp_all add: equal_duration_config_def faulting_duation_ms_def float_defs)

lemma long_train_config_facts:
  "num_executions long_train_config = 5"
  "dead_timeout long_train_config = 100"
  "faulting_duation_ms long_train_config = Inr (7036874417766400, - 45)"
  by (simp_all add: long_train_config_def faulting_duation_ms_def float_defs)

lemmas campaign_defs = test_position_def test_config_def execution_attempt_def try_body_def
  handle_exception_def shouter_recovery_def target_recovery_def reflash_recovery_def
  reset_target_def hw_call_def and_then_def ctl_of_def store_config_def dict_incr_def
  incr_counter_def add_extradata_def float_less_int_def new_profiler_def
  init_config_results_def default_result_types_def

lemmas scenario_defs = bench_config_facts equal_duration_config_facts long_train_config_facts
  silent_shouter_env_def silent_shouter_run_def
  reset_timed_out_def soft_env_def hard_env_def outcome_of_def result_entry_def actions_of_def
  quiet_env_def memcpy_fault_packet_def zero_packet_def

section \<open>The packet codec\<close>

text \<open>The code byte of \<open>_cobs_stuff_data\<close> stays within \<open>1..255\<close>, so it fits a byte.\<close>

lemma stuff_loop_code_le:
  "stuff_loop fb bs (out, code, ci) = (out', code', ci') \<Longrightarrow> 1 \<le> code \<Longrightarrow> code \<le> 255
     \<Longrightarrow> 1 \<le> code' \<and> code' \<le> 255"
proof (induction bs arbitrary: out code ci)
  case Nil
  then show ?case by simp
next
  case (Cons b bs)
  then show ?case
    by (auto simp: Let_def split: if_splits prod.splits)
qed

text \<open>The docstring's example, in both directions.\<close>

lemma cobs_docstring_example:
  "cobs_stuff_data [0x11, 0x00, 0x22] 0x00 = [0x02, 0x11, 0x02, 0x22]"
  "cobs_unstuff_data [0x02, 0x11, 0x02, 0x22] 0x00 = Inr [0x11, 0x00, 0x22]"
  by (simp_all add: cobs_stuff_data_def cobs_unstuff_data_def)

text \<open>
  C1. The claim: decoding the encoding returns the original, for every byte sequence.
  The code at 254 non-zero bytes followed by \<open>0x00\<close>: the frame byte arrives when the
  block is full, the encoder closes the block with code \<open>0xFF\<close> and opens an empty one,
  and the decoder, which puts no frame byte after a block of code \<open>0xFF\<close>, returns the
  254 bytes without the final \<open>0x00\<close>.
\<close>

theorem cobs_round_trip_drops_frame_byte:
  "cobs_stuff_data (replicate 254 0x01 @ [0x00]) 0x00 = 0xFF # replicate 254 0x01 @ [0x01]
   \<and> cobs_unstuff_data (cobs_stuff_data (replicate 254 0x01 @ [0x00]) 0x00) 0x00
       = Inr (replicate 254 0x01)
   \<and> cobs_unstuff_data (cobs_stuff_data (replicate 254 0x01 @ [0x00]) 0x00) 0x00
       \<noteq> Inr (replicate 254 0x01 @ [0x00])"
  by code_simp

text \<open>
  A call of \<open>send_packet\<close> with a command in the byte range and non-empty bytes raises
  at the read of \<open>buf\<close> and leaves the transport as it was.
\<close>

lemma send_packet_with_data_raises:
  "0 \<le> c \<Longrightarrow> c \<le> 255 \<Longrightarrow> bs \<noteq> []
     \<Longrightarrow> send_packet s (CInt c) (DBytes bs) timeout = (Inl buf_unbound, s)"
  by (simp add: send_packet_def in_byte_range_def)

text \<open>
  C4. The claim: for a command in \<open>[1,255]\<close> and a non-empty payload, \<open>send_packet\<close>
  writes the command, the stuffed payload and CRC, and \<open>0x00\<close>; for an empty payload
  it writes the command and \<open>0x00\<close>. The code at command 1 and payload \<open>[0x41]\<close>: the
  packet it builds is \<open>[1, 3, 0x41, 0x73, 0]\<close>, but the call raises
  \<open>UnboundLocalError\<close> and nothing is written. The empty payload is written as claimed.
\<close>

theorem send_packet_with_data_writes_nothing:
  "packet_with_data 1 [0x41] = [0x01, 0x03, 0x41, 0x73, 0x00]
   \<and> send_packet \<lparr>tx = [], rx = []\<rparr> (CInt 1) (DBytes [0x41]) 0
       = (Inl buf_unbound, \<lparr>tx = [], rx = []\<rparr>)
   \<and> send_packet \<lparr>tx = [], rx = []\<rparr> (CInt 1) DNone 0
       = (Inr (), \<lparr>tx = [0x01, 0x00], rx = []\<rparr>)"
proof -
  have "packet_with_data 1 [0x41] = [0x01, 0x03, 0x41, 0x73, 0x00]"
    by code_simp
  then show ?thesis
    by (simp add: send_packet_def in_byte_range_def write_serial_def ser_write_def)
qed

text \<open>\<open>read_until\<close> of the frame byte returns the bytes up to the first \<open>0x00\<close>.\<close>

lemma read_until_loop_frame:
  "0 \<notin> set xs \<Longrightarrow> read_until_loop [0] acc (xs @ 0 # pending) = (acc @ xs @ [0], pending)"
  by (induction xs arbitrary: acc) auto

lemma read_until_frame:
  assumes "rx s = xs @ 0 # pending" and "0 \<notin> set xs"
  shows "read_until s frame_byte_seq timeout = (xs @ [0], s\<lparr>rx := pending\<rparr>)"
  using read_until_loop_frame [OF assms(2), of "[]" pending] assms(1)
  by (simp add: read_until_def frame_byte_seq_def)

text \<open>
  C6. A frame is a command byte, encoded bytes and the terminator, with no \<open>0x00\<close>
  before the terminator. If the encoded bytes decode to a non-empty block whose last
  byte differs from the CRC of the bytes before it, \<open>read_packet\<close> raises the CRC
  mismatch; if they are equal it returns the command and those bytes; a frame with no
  encoded bytes gives the command and \<open>None\<close>.
\<close>

theorem read_packet_crc_check:
  assumes "rx s = cmd # encoded @ 0 # pending" and "cmd \<noteq> 0" and "0 \<notin> set encoded"
  shows "(encoded = [] \<longrightarrow> read_packet s timeout = (Inr (cmd, None), s\<lparr>rx := pending\<rparr>))
       \<and> (\<forall>decoded. encoded \<noteq> [] \<and> cobs_unstuff_data encoded 0x00 = Inr decoded \<and> decoded \<noteq> []
            \<longrightarrow> read_packet s timeout =
                (if calc_crc (butlast decoded) \<noteq> last decoded
                 then (Inl (Exc ValueError (Msg ''read_packet: CRC mismatch'')), s\<lparr>rx := pending\<rparr>)
                 else (Inr (cmd, Some (butlast decoded)), s\<lparr>rx := pending\<rparr>)))"
proof -
  from assms have "rx s = (cmd # encoded) @ 0 # pending" and "0 \<notin> set (cmd # encoded)"
    by auto
  then have ru: "read_until s frame_byte_seq timeout = ((cmd # encoded) @ [0], s\<lparr>rx := pending\<rparr>)"
    by (rule read_until_frame)
  have ew: "endswith ((cmd # encoded) @ [0]) frame_byte_seq"
    by (simp add: endswith_def frame_byte_seq_def)
  have bl: "butlast ((cmd # encoded) @ [0]) = cmd # encoded"
    by (simp add: butlast_append)
  show ?thesis
    unfolding read_packet_def ru using ew bl
    by (auto simp: Let_def)
qed

theorem read_packet_crc_check_witness:
  "read_packet \<lparr>tx = [], rx = [0x65, 0x03, 0x41, 0x73, 0x00]\<rparr> 250
     = (Inr (0x65, Some [0x41]), \<lparr>tx = [], rx = []\<rparr>)
   \<and> read_packet \<lparr>tx = [], rx = [0x65, 0x03, 0x41, 0x74, 0x00]\<rparr> 250
     = (Inl (Exc ValueError (Msg ''read_packet: CRC mismatch'')), \<lparr>tx = [], rx = []\<rparr>)
   \<and> read_packet \<lparr>tx = [], rx = [0x65, 0x00]\<rparr> 250
     = (Inr (0x65, None), \<lparr>tx = [], rx = []\<rparr>)"
proof -
  have good: "cobs_unstuff_data [0x03, 0x41, 0x73] 0x00 = Inr [0x41, 0x73]"
    by code_simp
  have bad: "cobs_unstuff_data [0x03, 0x41, 0x74] 0x00 = Inr [0x41, 0x74]"
    by code_simp
  have crc: "calc_crc [0x41] = 0x73"
    by code_simp
  have "read_packet \<lparr>tx = [], rx = [0x65, 0x03, 0x41, 0x73, 0x00]\<rparr> 250
          = (Inr (0x65, Some [0x41]), \<lparr>tx = [], rx = []\<rparr>)"
    using read_packet_crc_check [of "\<lparr>tx = [], rx = [0x65, 0x03, 0x41, 0x73, 0x00]\<rparr>"
            "0x65" "[0x03, 0x41, 0x73]" "[]" 250] good crc
    by simp
  moreover
  have "read_packet \<lparr>tx = [], rx = [0x65, 0x03, 0x41, 0x74, 0x00]\<rparr> 250
          = (Inl (Exc ValueError (Msg ''read_packet: CRC mismatch'')), \<lparr>tx = [], rx = []\<rparr>)"
    using read_packet_crc_check [of "\<lparr>tx = [], rx = [0x65, 0x03, 0x41, 0x74, 0x00]\<rparr>"
            "0x65" "[0x03, 0x41, 0x74]" "[]" 250] bad crc
    by simp
  moreover
  have "read_packet \<lparr>tx = [], rx = [0x65, 0x00]\<rparr> 250
          = (Inr (0x65, None), \<lparr>tx = [], rx = []\<rparr>)"
    using read_packet_crc_check [of "\<lparr>tx = [], rx = [0x65, 0x00]\<rparr>" "0x65" "[]" "[]" 250]
    by simp
  ultimately show ?thesis
    by simp
qed

text \<open>
  C7. The claim: a packet with command 0 cannot be sent, whatever the payload; 0 is the
  frame terminator and no command. The code at command 0 and no payload:
  \<open>type_convert_cmd\<close> accepts 0 and \<open>send_packet\<close> writes \<open>[0, 0]\<close>. That frame
  cannot be read back: \<open>read_packet\<close> stops at the first \<open>0x00\<close>, finds no command
  byte, raises \<open>IndexError\<close> and leaves the second \<open>0x00\<close> in the buffer.
\<close>

theorem send_packet_accepts_command_zero:
  "type_convert_cmd (CInt 0) = Inr 0
   \<and> send_packet \<lparr>tx = [], rx = []\<rparr> (CInt 0) DNone 0
       = (Inr (), \<lparr>tx = [0x00, 0x00], rx = []\<rparr>)
   \<and> read_packet \<lparr>tx = [], rx = [0x00, 0x00]\<rparr> 250
       = (Inl (Exc IndexError (Msg ''index out of range'')), \<lparr>tx = [], rx = [0x00]\<rparr>)"
  by (simp add: send_packet_def in_byte_range_def write_serial_def ser_write_def
      read_packet_def read_until_def frame_byte_seq_def endswith_def Let_def)

text \<open>
  What \<open>send_packet\<close> checks of an integer command is the byte range: outside
  \<open>[0,255]\<close> it raises \<open>ValueError\<close> and writes nothing; inside it, with an empty or
  absent payload, it writes the command and \<open>0x00\<close>.
\<close>

lemma send_packet_checks_byte_range:
  "(type_convert_cmd (CInt n) = Inr n \<longleftrightarrow> 0 \<le> n \<and> n \<le> 255)
   \<and> (\<not> (0 \<le> n \<and> n \<le> 255) \<longrightarrow>
        send_packet s (CInt n) data timeout
          = (Inl (Exc ValueError (Template ''Command `{cmd}` out of byte range (0-255)'')), s))
   \<and> (0 \<le> n \<and> n \<le> 255 \<and> \<not> truthy data \<longrightarrow>
        send_packet s (CInt n) data timeout = (Inr (), s\<lparr>tx := tx s @ [of_int n, 0x00]\<rparr>))"
  by (cases data)
     (auto simp: send_packet_def in_byte_range_def write_serial_def ser_write_def)

text \<open>
  C10. \<open>peek\<close> returns \<open>None\<close> for every number of bytes, timeout and buffer: the
  bytes the driver hands over are dropped.
\<close>

theorem peek_returns_None:
  "peek s num_bytes timeout = None"
  by (simp add: peek_def)

section \<open>The command registry\<close>


lemma find_packet_None: "find_packet ps cmd = None \<longleftrightarrow> cmd \<notin> command ` set ps"
  by (induction ps) auto




lemma set_remove1_insert: "c \<in> set xs \<Longrightarrow> insert c (set (remove1 c xs)) = set xs"
  by (induction xs) auto

text \<open>Every registration that succeeds keeps the two lists on the same commands.\<close>

lemma addSimpleSerialCommand_in_sync:
  assumes "registry_in_sync self" and "addSimpleSerialCommand self obj overwrite = Inr self1"
  shows "registry_in_sync self1"
proof (cases obj)
  case (Packet p)
  show ?thesis
  proof (cases "command p \<in> set (valid_commands self)")
    case True
    with assms Packet set_remove1_insert [OF True] show ?thesis
      by (auto simp: addSimpleSerialCommand_def registry_in_sync_def split: if_splits)
  next
    case False
    with assms Packet show ?thesis
      by (auto simp: addSimpleSerialCommand_def registry_in_sync_def split: if_splits)
  qed
next
  case NotAPacket
  with assms show ?thesis
    by (simp add: addSimpleSerialCommand_def)
qed

lemma handlePacket_unknown:
  "cmd \<notin> command ` set (simpleserial_config self)
     \<Longrightarrow> handlePacket self reset_outcome cmd data = Inl matched_packet_unbound"
  by (simp add: handlePacket_def find_packet_None [THEN iffD2])

text \<open>
  C5. The claim: a command with no registered handler fails with the unknown-command
  error, a \<open>ValueError\<close> naming the command. The code at command \<open>0x78\<close> on the default
  configuration (commands \<open>s\<close>, \<open>e\<close>, \<open>r\<close>, \<open>f\<close>): no packet matches, \<open>matched_packet\<close>
  is never assigned, and the call raises \<open>UnboundLocalError\<close>.
\<close>

theorem handlePacket_unknown_command_unbound:
  "handlePacket (new_profiler 1 [] []) (Inr ()) 0x78 None = Inl matched_packet_unbound
   \<and> handlePacket (new_profiler 1 [] []) (Inr ()) 0x78 None \<noteq> Inl no_matching_packet"
  by (simp add: handlePacket_def new_profiler_def default_simpleserial_config_def
      matched_packet_unbound_def no_matching_packet_def)



section \<open>The campaign loop\<close>

text \<open>
  The hardware calls do not touch \<open>results\<close>. Adding one to a key that is absent, or
  bound to a list, raises; so the second remedy raises whenever neither \<open>soft_bricked\<close>
  nor \<open>hard_bricked\<close> is bound to an integer, whatever the hardware does. The profiler
  starts with neither key, and the only integer that \<open>test_position\<close> stores is under
  \<open>num_skipped\<close>.
\<close>

lemma hw_call_results: "hw_call ev a self = (r, self1) \<Longrightarrow> results self1 = results self"
  by (auto simp: hw_call_def Let_def split: option.splits)

lemma reset_tries_results: "reset_tries ev n self = (r, self1) \<Longrightarrow> results self1 = results self"
  by (induction n arbitrary: self) (auto simp: Let_def split: reset_try.splits)

lemma reset_target_results: "reset_target ev self = (r, self1) \<Longrightarrow> results self1 = results self"
  by (simp add: reset_target_def reset_tries_results)

lemma dict_incr_raises:
  "\<forall>n. cr key \<noteq> Some (RInt n) \<Longrightarrow> \<exists>e. dict_incr cr key = Inl e"
  by (auto simp: dict_incr_def split: option.splits rvalue.splits)

lemma reflash_recovery_raises:
  assumes "\<forall>n. (results self ! config_index) ''hard_bricked'' \<noteq> Some (RInt n)"
  shows "\<exists>e self1. reflash_recovery ev config_index execution_index self = (Inl e, self1)"
proof -
  obtain r1 s1 where h1: "hw_call ev CwFlash self = (r1, s1)" by fastforce
  obtain r2 s2 where h2: "reset_target ev s1 = (r2, s2)" by fastforce
  have "results s2 = results self"
    using hw_call_results [OF h1] reset_target_results [OF h2] by simp
  with assms obtain e where "dict_incr (results s2 ! config_index) ''hard_bricked'' = Inl e"
    using dict_incr_raises [of "results s2 ! config_index" "''hard_bricked''"] by auto
  with h1 h2 show ?thesis
    by (cases r1; cases r2) (auto simp: reflash_recovery_def and_then_def)
qed

lemma target_recovery_raises:
  assumes soft: "\<forall>n. (results self ! config_index) ''soft_bricked'' \<noteq> Some (RInt n)"
    and hard: "\<forall>n. (results self ! config_index) ''hard_bricked'' \<noteq> Some (RInt n)"
  shows "\<exists>e self1. target_recovery ev config_index execution_index self = (Inl e, self1)"
proof -
  obtain r1 s1 where h1: "hw_call ev CsDisarm self = (r1, s1)" by fastforce
  obtain r2 s2 where h2: "hw_call ev PowerCycleTarget s1 = (r2, s2)" by fastforce
  obtain r3 s3 where h3: "hw_call ev NewTargetSerial s2 = (r3, s3)" by fastforce
  obtain r4 s4 where h4: "reset_target ev s3 = (r4, s4)" by fastforce
  have res: "results s4 = results self"
    using hw_call_results [OF h1] hw_call_results [OF h2] hw_call_results [OF h3]
      reset_target_results [OF h4] by simp
  from soft res obtain e where s: "dict_incr (results s4 ! config_index) ''soft_bricked'' = Inl e"
    using dict_incr_raises [of "results s4 ! config_index" "''soft_bricked''"] by auto
  from hard res have "\<forall>n. (results s4 ! config_index) ''hard_bricked'' \<noteq> Some (RInt n)"
    by simp
  then obtain e' s5 where "reflash_recovery ev config_index execution_index s4 = (Inl e', s5)"
    using reflash_recovery_raises by blast
  with h1 h2 h3 h4 s show ?thesis
    by (cases r1; cases r2; cases r3; cases r4) (auto simp: target_recovery_def and_then_def)
qed

text \<open>
  With the retries used up, the handler leaves the loop and binds \<open>num_skipped\<close> to the
  integer \<open>num_executions - execution_index\<close>, whatever was bound before.
\<close>

lemma handle_exception_exhausted:
  assumes "3 \<le> retry_count" and "config_index < length (results self)"
  shows "fst (handle_exception ev position_index config_index cfg e execution_index retry_count self) = Break"
    and "(results (snd (handle_exception ev position_index config_index cfg e execution_index
            retry_count self)) ! config_index) ''num_skipped''
          = Some (RInt (num_executions cfg - execution_index))"
  using assms by (simp_all add: handle_exception_def store_config_def Let_def)

text \<open>A reset timeout within the retry budget ends in an exception.\<close>

lemma handle_exception_reset_timeout_raises:
  assumes "retry_count < 3"
    and "str_in (unwrap_retry e) [''ChipWhisperer: reset_target timed out'']"
    and "\<forall>n. (results self ! config_index) ''soft_bricked'' \<noteq> Some (RInt n)"
    and "\<forall>n. (results self ! config_index) ''hard_bricked'' \<noteq> Some (RInt n)"
  shows "\<exists>e1. fst (handle_exception ev position_index config_index cfg e execution_index retry_count self) = Raise e1"
proof -
  let ?self1 = "self\<lparr>catched_errors := catched_errors self @ [(position_index, unwrap_retry e)]\<rparr>"
  have "\<exists>e1 self2. target_recovery ev config_index execution_index ?self1 = (Inl e1, self2)"
    using assms(3,4) by (intro target_recovery_raises) simp_all
  moreover have "\<not> str_in (unwrap_retry e) [''No response from shouter.'', ''Failed to clear ChipSHOUTER faults!'']"
  proof (cases "unwrap_retry e")
    case (Exc c t)
    with assms(2) show ?thesis by (cases t) auto
  next
    case (RetryError x)
    with assms(2) show ?thesis by simp
  qed
  ultimately show ?thesis
    using assms(1,2) by (auto simp: handle_exception_def Let_def)
qed

text \<open>
  C2. The claim: when the three retries are used up, the entry of the skipped counter
  array at the position becomes the number of executions left and the other positions'
  entries stay. The code on two positions: after position 0 the array is \<open>[2, 0]\<close>; at
  position 1 the fourth failure assigns \<open>config_results["num_skipped"] = 5\<close>, an integer
  in place of the array, and the 2 counted at position 0 is gone. The loop ends for this
  config without an exception, as claimed.
\<close>

theorem skipped_replaces_counter_array:
  "outcome_of (test_position 10 silent_shouter_env 0 (new_profiler 2 [bench_config] []))
     = Some (Inr ())
   \<and> result_entry (test_position 10 silent_shouter_env 0 (new_profiler 2 [bench_config] []))
       ''num_skipped'' = Some (RList [IInt 2, IInt 0])
   \<and> outcome_of silent_shouter_run = Some (Inr ())
   \<and> result_entry silent_shouter_run ''num_skipped'' = Some (RInt 5)
   \<and> result_entry silent_shouter_run ''num_skipped'' \<noteq> Some (RList [IInt 2, IInt 5])"
  by (simp add: campaign_defs scenario_defs eval_nat_numeral)

text \<open>
  C3. The claim: after a reset-timeout error, one soft-recovered count is recorded if
  the reset after the power cycle succeeds, one hard-recovered count after a reflash if
  it does not, and the execution index advances by one. The code on one position, first
  with every reset succeeding, then with the reset after the power cycle failing: the
  result dictionary has the keys \<open>num_soft_bricked\<close> and \<open>num_hard_bricked\<close>, not
  \<open>soft_bricked\<close> and \<open>hard_bricked\<close>, so the first addition raises \<open>KeyError\<close>, the
  target is reflashed even though its reset succeeded, the second addition raises
  \<open>KeyError\<close> again, and \<open>test_position\<close> ends with that exception; no count is
  recorded and no further execution runs.
\<close>

theorem reset_timeout_ends_in_KeyError:
  "outcome_of (test_position 10 soft_env 0 (new_profiler 1 [bench_config] []))
     = Some (Inl (Exc KeyError (Repr ''hard_bricked'')))
   \<and> actions_of (test_position 10 soft_env 0 (new_profiler 1 [bench_config] []))
     = [CwResetTarget, ConfigureChipshouter 0, SerialFlush, TestExecution 0 0 0,
        CsDisarm, PowerCycleTarget, NewTargetSerial, CwResetTarget, CwFlash, CwResetTarget]
   \<and> result_entry (test_position 10 soft_env 0 (new_profiler 1 [bench_config] []))
       ''num_soft_bricked'' = Some (RList [IInt 0])
   \<and> result_entry (test_position 10 soft_env 0 (new_profiler 1 [bench_config] []))
       ''soft_bricked'' = None
   \<and> outcome_of (test_position 10 hard_env 0 (new_profiler 1 [bench_config] []))
     = Some (Inl (Exc KeyError (Repr ''hard_bricked'')))
   \<and> actions_of (test_position 10 hard_env 0 (new_profiler 1 [bench_config] []))
     = [CwResetTarget, ConfigureChipshouter 0, SerialFlush, TestExecution 0 0 0,
        CsDisarm, PowerCycleTarget, NewTargetSerial, CwResetTarget, CwResetTarget,
        CwResetTarget, CwFlash, CwResetTarget]
   \<and> result_entry (test_position 10 hard_env 0 (new_profiler 1 [bench_config] []))
       ''num_hard_bricked'' = Some (RList [IInt 0])
   \<and> result_entry (test_position 10 hard_env 0 (new_profiler 1 [bench_config] []))
       ''hard_bricked'' = None"
  by (simp add: campaign_defs scenario_defs eval_nat_numeral)

text \<open>
  C9. The claim: a config whose \<open>(pulse_width + pulse_spacing) * pulse_repeats\<close> is not
  below \<open>dead_timeout\<close> raises before any hardware action. The code at width 50,
  spacing 50, one repeat and dead timeout 100: the product is 100, not below 100, but
  the check divides it by \<open>1e6\<close> first and passes; and \<open>test_position\<close> has reset the
  target before the check, and goes on to configure the pulse generator, flush and run
  the execution.
\<close>

theorem duration_check_divides_by_1e6:
  "\<not> (pulse_width equal_duration_config + pulse_spacing equal_duration_config)
        * pulse_repeats equal_duration_config < dead_timeout equal_duration_config
   \<and> outcome_of (test_position 10 quiet_env 0 (new_profiler 1 [equal_duration_config] []))
       = Some (Inr ())
   \<and> actions_of (test_position 10 quiet_env 0 (new_profiler 1 [equal_duration_config] []))
       = [CwResetTarget, ConfigureChipshouter 0, SerialFlush, TestExecution 0 0 0]
   \<and> result_entry (test_position 10 quiet_env 0 (new_profiler 1 [equal_duration_config] []))
       ''num_nofaults'' = Some (RList [IInt 1])"
proof -
  have "\<not> (pulse_width equal_duration_config + pulse_spacing equal_duration_config)
        * pulse_repeats equal_duration_config < dead_timeout equal_duration_config"
    by (simp add: equal_duration_config_def)
  then show ?thesis
    by (simp add: campaign_defs scenario_defs eval_nat_numeral)
qed

text \<open>
  The check on floats. An integer below \<open>2^53\<close> in size converts exactly; the quotient of
  a duration below \<open>2^53\<close> by \<open>10^6\<close> is below \<open>2^34\<close>, so it is rounded to a multiple of
  a negative power of two, of which every integer is a multiple: a quotient that is at
  least the integer \<open>d\<close> before rounding is at least \<open>d\<close> after it.
\<close>

lemma bit_length_le: "n < 2 ^ j \<Longrightarrow> bit_length n \<le> j"
proof (induction j arbitrary: n)
  case 0
  then show ?case by (simp add: bit_length.simps)
next
  case (Suc j)
  show ?case
  proof (cases "n = 0")
    case True
    then show ?thesis by (simp add: bit_length.simps)
  next
    case False
    from Suc.prems have "n div 2 < 2 ^ j" by simp
    then have "bit_length (n div 2) \<le> j" by (rule Suc.IH)
    with False show ?thesis by (subst bit_length.simps) simp
  qed
qed

lemma bit_length_million: "bit_length 1000000 = 20"
  by (simp add: bit_length.simps)

lemma float_of_int_exact: "\<bar>n\<bar> < 2 ^ 53 \<Longrightarrow> float_of_int n = Inr (n, 0)"
proof -
  assume "\<bar>n\<bar> < 2 ^ 53"
  then have "nat \<bar>n\<bar> < 2 ^ 53"
    by (simp add: nat_less_iff)
  then have "bit_length (nat \<bar>n\<bar>) \<le> 53" by (rule bit_length_le)
  then show ?thesis by (simp add: float_of_int_def Let_def)
qed

lemma round_half_even_ge: "num div den \<le> round_half_even num den"
  by (simp add: round_half_even_def Let_def)

lemma floor_log2_frac_million: "n < 2 ^ 53 \<Longrightarrow> floor_log2_frac n 1000000 \<le> 33"
  using bit_length_le [of n 53]
  by (simp add: floor_log2_frac_def Let_def bit_length_million)

lemma quotient_not_less:
  assumes "0 \<le> n" and "n < 2 ^ 53" and "d * 1000000 \<le> n"
  shows "\<not> float_less_int (truediv_1e6 (n, 0)) d"
proof (cases "n = 0")
  case True
  with assms(3) show ?thesis
    by (simp add: truediv_1e6_def float_less_int_def)
next
  case False
  with assms(1) have pos: "0 < n" by simp
  define a where "a = nat n"
  have a: "int a = n" "a < 2 ^ 53" using pos assms(2) by (simp_all add: a_def nat_less_iff)
  define s where "s = floor_log2_frac a 1000000 - 52"
  have s: "s < 0" using floor_log2_frac_million [OF a(2)] by (simp add: s_def)
  define j where "j = nat (- s)"
  define m where "m = round_half_even (a * 2 ^ j) 1000000"
  have rb: "round_binary64 a 1000000 = (int m, s)"
    using s by (simp add: round_binary64_def Let_def s_def [symmetric] m_def j_def)
  have td: "truediv_1e6 (n, 0) = (int m, s)"
    using pos rb by (simp add: truediv_1e6_def a_def)
  have "d * 2 ^ j * 1000000 \<le> int (a * 2 ^ j)"
    using assms(3) a(1) by (simp add: mult.commute mult_left_mono)
  then have "(d * 2 ^ j * 1000000) div 1000000 \<le> int (a * 2 ^ j) div 1000000"
    by (rule zdiv_mono1) simp
  then have "d * 2 ^ j \<le> int (a * 2 ^ j) div 1000000"
    by simp
  also have "\<dots> = int ((a * 2 ^ j) div 1000000)"
    by (simp add: zdiv_int)
  also have "\<dots> \<le> int m"
    unfolding m_def using round_half_even_ge by simp
  finally show ?thesis
    using s by (simp add: td float_less_int_def j_def)
qed

text \<open>
  Beyond that range the same inequality does not decide the check. At a pulse train of
  \<open>10^22 + 10^6\<close> ns the conversion rounds to \<open>10^22\<close>, the quotient is \<open>10^16\<close>,
  below the dead timeout \<open>10^16 + 1\<close>, and the check passes; from \<open>2^1024\<close> on, so at
  \<open>10^400\<close> ns, the conversion raises \<open>OverflowError\<close>.
\<close>

lemma duration_check_rounds:
  "dead_timeout rounding_config * 1000000
     \<le> (pulse_width rounding_config + pulse_spacing rounding_config)
         * pulse_repeats rounding_config
   \<and> faulting_duation_ms rounding_config = Inr (5000000000000000, 1)
   \<and> float_less_int (5000000000000000, 1) (dead_timeout rounding_config)"
  by (simp add: rounding_config_def faulting_duation_ms_def float_defs)

lemma bit_length_gt: "2 ^ j \<le> n \<Longrightarrow> j < bit_length n"
proof (induction j arbitrary: n)
  case 0
  then show ?case by (subst bit_length.simps) simp
next
  case (Suc j)
  then have "2 ^ j \<le> n div 2" by simp
  then have "j < bit_length (n div 2)" by (rule Suc.IH)
  moreover have "(0::nat) < 2 ^ Suc j" by simp
  with Suc.prems have "n \<noteq> 0" by linarith
  ultimately show ?case by (subst bit_length.simps) simp
qed

lemma bit_length_lower: "n \<noteq> 0 \<Longrightarrow> 2 ^ (bit_length n - 1) \<le> n"
proof (induction n rule: bit_length.induct)
  case (1 n)
  show ?case
  proof (cases "n div 2 = 0")
    case True
    with 1(2) have "bit_length n = 1"
      by (subst bit_length.simps, subst bit_length.simps) simp
    with 1(2) show ?thesis by simp
  next
    case False
    with 1 have ih: "2 ^ (bit_length (n div 2) - 1) \<le> n div 2" by simp
    from False have "0 < bit_length (n div 2)"
      by (subst bit_length.simps) simp
    then have "bit_length n - 1 = Suc (bit_length (n div 2) - 1)"
      using 1(2) by (subst bit_length.simps) simp
    with ih show ?thesis by simp
  qed
qed

lemma float_of_int_overflow:
  assumes "2 ^ 1024 \<le> \<bar>n\<bar>"
  shows "float_of_int n = Inl (Exc OverflowError (Msg ''int too large to convert to float''))"
proof -
  define a where "a = nat \<bar>n\<bar>"
  from assms have big: "2 ^ 1024 \<le> a"
    by (simp add: a_def le_nat_iff)
  then have bits: "1024 < bit_length a" by (rule bit_length_gt)
  define shift where "shift = bit_length a - 53"
  define m where "m = round_half_even a (2 ^ shift)"
  have len: "bit_length a - 1 = 52 + shift" and long: "1024 \<le> 52 + shift"
    using bits by (simp_all add: shift_def)
  have "(0::nat) < 2 ^ 1024" by simp
  with big have "a \<noteq> 0" by linarith
  then have "2 ^ (bit_length a - 1) \<le> a" by (rule bit_length_lower)
  then have "2 ^ 52 * 2 ^ shift \<le> a"
    by (simp only: len power_add)
  then have "2 ^ 52 \<le> a div 2 ^ shift"
    by (simp only: less_eq_div_iff_mult_less_eq zero_less_power zero_less_numeral)
  also have "\<dots> \<le> m"
    unfolding m_def by (rule round_half_even_ge)
  finally have "2 ^ 52 * 2 ^ shift \<le> m * 2 ^ shift"
    by (rule mult_le_mono1)
  moreover have "(2::nat) ^ 1024 \<le> 2 ^ (52 + shift)"
    using long by (intro power_increasing) simp_all
  ultimately have "2 ^ 1024 \<le> m * 2 ^ shift"
    by (simp only: power_add)
  moreover from bits have "\<not> bit_length a \<le> 53" by simp
  ultimately show ?thesis
    unfolding float_of_int_def Let_def a_def [symmetric] shift_def [symmetric] m_def [symmetric]
    by (simp only: if_True if_False)
qed

lemma duration_check_overflows:
  "faulting_duation_ms overflow_config
     = Inl (Exc OverflowError (Msg ''int too large to convert to float''))"
proof -
  have "(2::int) ^ 1024 \<le> \<bar>10 ^ 400\<bar>"
    by simp
  then have "float_of_int (10 ^ 400)
      = Inl (Exc OverflowError (Msg ''int too large to convert to float''))"
    by (rule float_of_int_overflow)
  then show ?thesis
    by (simp add: overflow_config_def faulting_duation_ms_def)
qed

text \<open>
  \<open>reset_target\<close> changes nothing but the actions, and a reset that succeeds has made
  at least one try. The loop over the configs runs a prefix of them first.
\<close>

lemma reset_tries_glitch_configs:
  "reset_tries ev k self = (r, self1) \<Longrightarrow> glitch_configs self1 = glitch_configs self"
  by (induction k arbitrary: self) (auto simp: Let_def split: reset_try.splits)

lemma reset_tries_actions:
  "reset_tries ev k self = (Inr u, self1)
     \<Longrightarrow> \<exists>j>0. actions self1 = actions self @ replicate j CwResetTarget"
proof (induction k arbitrary: self)
  case 0
  then show ?case by simp
next
  case (Suc k)
  let ?s = "self\<lparr>actions := actions self @ [CwResetTarget]\<rparr>"
  show ?case
  proof (cases "reset_out ev (length (actions self))")
    case (TryRaises e)
    with Suc.prems show ?thesis by (simp add: Let_def)
  next
    case SeqSeen
    with Suc.prems have "actions self1 = actions self @ replicate 1 CwResetTarget"
      by (auto simp: Let_def)
    then show ?thesis by blast
  next
    case SeqNotSeen
    with Suc.prems have "reset_tries ev k ?s = (Inr u, self1)"
      by (simp add: Let_def)
    from Suc.IH [OF this] obtain j where "j > 0"
      "actions self1 = actions ?s @ replicate j CwResetTarget" by blast
    then have "actions self1 = actions self @ replicate (Suc j) CwResetTarget"
      by (simp add: replicate_app_Cons_same)
    then show ?thesis by blast
  qed
qed

lemma test_configs_append:
  "test_configs fuel ev position_index config_index (pre @ rest) self =
     (case test_configs fuel ev position_index config_index pre self of
        None \<Rightarrow> None
      | Some (Inl e, self1) \<Rightarrow> Some (Inl e, self1)
      | Some (Inr u, self1) \<Rightarrow>
          test_configs fuel ev position_index (config_index + length pre) rest self1)"
proof (induction pre arbitrary: config_index self)
  case Nil
  then show ?case by simp
next
  case (Cons cfg pre)
  show ?case
    by (simp add: Cons.IH split: option.splits prod.splits sum.splits)
qed

text \<open>
  C9, as the code has it. The duration is in nanoseconds and the timeout in
  milliseconds. Take a config of the position's list whose
  \<open>(pulse_width + pulse_spacing) * pulse_repeats\<close> is at least \<open>0\<close>, below \<open>2^53\<close> and
  at least \<open>dead_timeout * 10^6\<close>, and let the initial target reset succeed and the
  configs before it finish without an exception. Then \<open>test_position\<close> ends with the
  assertion error, and the profiler is as the reset and the earlier configs left it:
  the reset has been tried at least once, but for this config the pulse generator is
  not configured, the port is not flushed and no execution runs, and the configs after
  it are not reached.
\<close>

theorem duration_assertion_before_config_actions:
  assumes "0 \<le> (pulse_width cfg + pulse_spacing cfg) * pulse_repeats cfg"
    and "(pulse_width cfg + pulse_spacing cfg) * pulse_repeats cfg < 2 ^ 53"
    and "dead_timeout cfg * 1000000 \<le> (pulse_width cfg + pulse_spacing cfg) * pulse_repeats cfg"
    and "glitch_configs self = pre @ cfg # post"
    and "reset_target ev self = (Inr (), self1)"
    and "test_configs fuel ev position_index 0 pre self1 = Some (Inr (), self2)"
  shows "test_position fuel ev position_index self = Some (Inl duration_assertion, self2)
       \<and> test_config fuel ev position_index (length pre) cfg self2
           = Some (Inl duration_assertion, self2)
       \<and> (\<exists>j>0. actions self1 = actions self @ replicate j CwResetTarget)"
proof -
  let ?ns = "(pulse_width cfg + pulse_spacing cfg) * pulse_repeats cfg"
  from assms(1,2) have "float_of_int ?ns = Inr (?ns, 0)"
    by (intro float_of_int_exact) simp
  then have ms: "faulting_duation_ms cfg = Inr (truediv_1e6 (?ns, 0))"
    by (simp add: faulting_duation_ms_def Let_def)
  have "\<not> float_less_int (truediv_1e6 (?ns, 0)) (dead_timeout cfg)"
    using assms(1,2,3) by (rule quotient_not_less)
  with ms have cfg: "test_config fuel ev position_index config_index cfg st
      = Some (Inl duration_assertion, st)" for config_index st
    by (simp add: test_config_def)
  from assms(5) have gc: "glitch_configs self1 = pre @ cfg # post"
    using assms(4) by (simp add: reset_target_def reset_tries_glitch_configs)
  have "test_configs fuel ev position_index 0 (pre @ cfg # post) self1
      = Some (Inl duration_assertion, self2)"
    by (simp add: test_configs_append assms(6) cfg)
  with assms(5) gc have "test_position fuel ev position_index self
      = Some (Inl duration_assertion, self2)"
    by (simp add: test_position_def)
  moreover from assms(5) have "\<exists>j>0. actions self1 = actions self @ replicate j CwResetTarget"
    unfolding reset_target_def by (rule reset_tries_actions)
  ultimately show ?thesis
    using cfg by simp
qed

theorem duration_assertion_before_config_actions_witness:
  "0 \<le> (pulse_width long_train_config + pulse_spacing long_train_config)
          * pulse_repeats long_train_config
   \<and> (pulse_width long_train_config + pulse_spacing long_train_config)
          * pulse_repeats long_train_config < 2 ^ 53
   \<and> dead_timeout long_train_config * 1000000
        \<le> (pulse_width long_train_config + pulse_spacing long_train_config)
            * pulse_repeats long_train_config
   \<and> outcome_of (test_position 10 quiet_env 0
        (new_profiler 1 [equal_duration_config, long_train_config, bench_config] []))
       = Some (Inl duration_assertion)
   \<and> actions_of (test_position 10 quiet_env 0
        (new_profiler 1 [equal_duration_config, long_train_config, bench_config] []))
       = [CwResetTarget, ConfigureChipshouter 0, SerialFlush, TestExecution 0 0 0]"
proof -
  let ?P = "new_profiler 1 [equal_duration_config, long_train_config, bench_config] []"
  define self1 where "self1 = snd (reset_target quiet_env ?P)"
  define self2 where
    "self2 = snd (the (test_configs 10 quiet_env 0 0 [equal_duration_config] self1))"
  have ns: "0 \<le> (pulse_width long_train_config + pulse_spacing long_train_config)
               * pulse_repeats long_train_config"
    "(pulse_width long_train_config + pulse_spacing long_train_config)
       * pulse_repeats long_train_config < 2 ^ 53"
    "dead_timeout long_train_config * 1000000
       \<le> (pulse_width long_train_config + pulse_spacing long_train_config)
           * pulse_repeats long_train_config"
    by (simp_all add: long_train_config_def)
  have cfgs: "glitch_configs ?P = [equal_duration_config] @ long_train_config # [bench_config]"
    by (simp add: new_profiler_def)
  have reset: "reset_target quiet_env ?P = (Inr (), self1)"
    by (simp add: self1_def reset_target_def quiet_env_def eval_nat_numeral)
  have earlier: "test_configs 10 quiet_env 0 0 [equal_duration_config] self1 = Some (Inr (), self2)"
    unfolding self2_def self1_def
    by (simp add: campaign_defs scenario_defs eval_nat_numeral)
  have acts: "actions self2 = [CwResetTarget, ConfigureChipshouter 0, SerialFlush, TestExecution 0 0 0]"
    unfolding self2_def self1_def
    by (simp add: campaign_defs scenario_defs eval_nat_numeral)
  from duration_assertion_before_config_actions [OF ns cfgs reset earlier]
  have "test_position 10 quiet_env 0 ?P = Some (Inl duration_assertion, self2)"
    by simp
  with acts ns show ?thesis
    by (simp add: outcome_of_def actions_of_def)
qed


end
